theory Spec2Isabelle
  imports Complex_Main "HOL-Library.Word" "HOL-Library.Sublist"
begin

section \<open>The ChainMail ledger contract\<close>

text \<open>
  A shallow embedding of the Solidity contract \<^verbatim>\<open>ChainMail\<close> (pragma \<^verbatim>\<open>^0.8.0\<close>).
  An \<^verbatim>\<open>address\<close> is a 160-bit word and \<^verbatim>\<open>address(0)\<close> is the word 0. A \<^verbatim>\<open>uint256\<close> is
  a natural number below \<open>2 ^ 256\<close>; the only arithmetic the contract does on one is
  \<^verbatim>\<open>emailCount++\<close>, which under Solidity 0.8 reverts with \<^verbatim>\<open>Panic(0x11)\<close> instead of
  wrapping, and that check is written out. A \<^verbatim>\<open>string\<close> is its list of bytes. A Solidity
  \<^verbatim>\<open>mapping\<close> is a total function whose unset keys read as the zero value of the value
  type.
\<close>

type_synonym address = "160 word"

definition MAX_UINT256 :: nat where
  "MAX_UINT256 = 2 ^ 256 - 1"

record Email =
  sender :: address
  recipient :: address
  ipfsHash :: string
  timestamp :: nat
  isImmutable :: bool

text \<open>The value an unset slot of \<^verbatim>\<open>mapping(uint256 => Email)\<close> reads as.\<close>

definition zero_Email :: Email where
  "zero_Email = \<lparr>sender = 0, recipient = 0, ipfsHash = [], timestamp = 0, isImmutable = False\<rparr>"

datatype event =
    EmailSent nat address address string nat
  | PublicKeyRegistered address string nat

text \<open>
  The storage variables of the contract, in declaration order, and the log of the events
  it has emitted (the log is not storage: no function of the contract reads it).
\<close>

record ChainMail =
  emails :: "nat \<Rightarrow> Email"
  emailCount :: nat
  recipientEmails :: "address \<Rightarrow> nat list"
  senderEmails :: "address \<Rightarrow> nat list"
  publicKeys :: "address \<Rightarrow> string"
  owner :: address
  relayAddress :: address
  eventLog :: "event list"

text \<open>What a call sees of its transaction: \<^verbatim>\<open>msg.sender\<close> and \<^verbatim>\<open>block.timestamp\<close>.\<close>

record env =
  msg_sender :: address
  block_timestamp :: nat

text \<open>
  A failed \<^verbatim>\<open>require(c, reason)\<close> reverts with \<^verbatim>\<open>Error(reason)\<close>; a failed checked
  arithmetic operation reverts with \<^verbatim>\<open>Panic(code)\<close>.
\<close>

datatype error = Error string | Panic nat

subsection \<open>Checks and modifiers\<close>

text \<open>
  \<^verbatim>\<open>require(c, reason)\<close> followed by the rest of the function body, and the two
  modifiers, each a \<^verbatim>\<open>require\<close> on \<^verbatim>\<open>msg.sender\<close> before the body it guards.
\<close>

definition require :: "bool \<Rightarrow> string \<Rightarrow> error + 'a \<Rightarrow> error + 'a" where
  "require c reason rest = (if c then rest else Inl (Error reason))"

definition onlyOwner :: "env \<Rightarrow> ChainMail \<Rightarrow> error + 'a \<Rightarrow> error + 'a" where
  "onlyOwner e s body = require (msg_sender e = owner s) ''Not contract owner'' body"

definition onlyRelay :: "env \<Rightarrow> ChainMail \<Rightarrow> error + 'a \<Rightarrow> error + 'a" where
  "onlyRelay e s body = require (msg_sender e = relayAddress s) ''Not authorized relay'' body"

subsection \<open>Deployment and administration\<close>

definition constructor :: "env \<Rightarrow> address \<Rightarrow> ChainMail" where
  "constructor e relayAddress' =
     \<lparr>emails = (\<lambda>_. zero_Email), emailCount = 0,
      recipientEmails = (\<lambda>_. []), senderEmails = (\<lambda>_. []),
      publicKeys = (\<lambda>_. []),
      owner = msg_sender e, relayAddress = relayAddress', eventLog = []\<rparr>"

definition setRelayAddress :: "env \<Rightarrow> address \<Rightarrow> ChainMail \<Rightarrow> error + ChainMail" where
  "setRelayAddress e relayAddress' s =
     onlyOwner e s
       (require (relayAddress' \<noteq> 0) ''Invalid relay address''
         (Inr (s\<lparr>relayAddress := relayAddress'\<rparr>)))"

definition transferOwnership :: "env \<Rightarrow> address \<Rightarrow> ChainMail \<Rightarrow> error + ChainMail" where
  "transferOwnership e newOwner s =
     onlyOwner e s
       (require (newOwner \<noteq> 0) ''Invalid owner address''
         (Inr (s\<lparr>owner := newOwner\<rparr>)))"

subsection \<open>Submitting records\<close>

definition logEmail_internal ::
  "env \<Rightarrow> address \<Rightarrow> address \<Rightarrow> string \<Rightarrow> ChainMail \<Rightarrow> error + nat \<times> ChainMail" where
  "logEmail_internal e sender' recipient' ipfsHash' s =
     require (sender' \<noteq> 0) ''Invalid sender address''
      (require (recipient' \<noteq> 0) ''Invalid recipient address''
       (require (length ipfsHash' > 0) ''IPFS hash cannot be empty''
        (if emailCount s + 1 > MAX_UINT256 then Inl (Panic 17)
         else
           let emailId = emailCount s + 1 in
           Inr (emailId,
             s\<lparr>emailCount := emailId,
               emails := (emails s)(emailId :=
                 \<lparr>sender = sender', recipient = recipient', ipfsHash = ipfsHash',
                  timestamp = block_timestamp e, isImmutable = True\<rparr>),
               recipientEmails := (recipientEmails s)(recipient' :=
                 recipientEmails s recipient' @ [emailId]),
               senderEmails := (senderEmails s)(sender' := senderEmails s sender' @ [emailId]),
               eventLog := eventLog s @
                 [EmailSent emailId sender' recipient' ipfsHash' (block_timestamp e)]\<rparr>))))"

definition logSend :: "env \<Rightarrow> address \<Rightarrow> string \<Rightarrow> ChainMail \<Rightarrow> error + nat \<times> ChainMail" where
  "logSend e recipient' ipfsHash' s = logEmail_internal e (msg_sender e) recipient' ipfsHash' s"

definition logSendFor ::
  "env \<Rightarrow> address \<Rightarrow> address \<Rightarrow> string \<Rightarrow> ChainMail \<Rightarrow> error + nat \<times> ChainMail" where
  "logSendFor e sender' recipient' ipfsHash' s =
     onlyRelay e s (logEmail_internal e sender' recipient' ipfsHash' s)"

subsection \<open>The public-key registry\<close>

definition setPublicKey_internal :: "env \<Rightarrow> address \<Rightarrow> string \<Rightarrow> ChainMail \<Rightarrow> error + ChainMail" where
  "setPublicKey_internal e user publicKey s =
     require (user \<noteq> 0) ''Invalid user address''
      (require (length publicKey > 0) ''Public key cannot be empty''
        (Inr (s\<lparr>publicKeys := (publicKeys s)(user := publicKey),
                eventLog := eventLog s @
                  [PublicKeyRegistered user publicKey (block_timestamp e)]\<rparr>)))"

definition registerPublicKey :: "env \<Rightarrow> string \<Rightarrow> ChainMail \<Rightarrow> error + ChainMail" where
  "registerPublicKey e publicKey s = setPublicKey_internal e (msg_sender e) publicKey s"

definition registerPublicKeyFor :: "env \<Rightarrow> address \<Rightarrow> string \<Rightarrow> ChainMail \<Rightarrow> error + ChainMail" where
  "registerPublicKeyFor e user publicKey s =
     onlyRelay e s (setPublicKey_internal e user publicKey s)"

subsection \<open>Read operations\<close>

definition getRecipientEmails :: "ChainMail \<Rightarrow> address \<Rightarrow> nat list" where
  "getRecipientEmails s recipient' = recipientEmails s recipient'"

definition getSenderEmails :: "ChainMail \<Rightarrow> address \<Rightarrow> nat list" where
  "getSenderEmails s sender' = senderEmails s sender'"

definition getEmail ::
  "ChainMail \<Rightarrow> nat \<Rightarrow> error + address \<times> address \<times> string \<times> nat \<times> bool" where
  "getEmail s emailId =
     require (emailId > 0 \<and> emailId \<le> emailCount s) ''Invalid email ID''
       (let email = emails s emailId in
        Inr (sender email, recipient email, ipfsHash email, timestamp email,
             isImmutable email))"

definition getPublicKey :: "ChainMail \<Rightarrow> address \<Rightarrow> string" where
  "getPublicKey s user = publicKeys s user"

definition getTotalEmails :: "ChainMail \<Rightarrow> nat" where
  "getTotalEmails s = emailCount s"

subsection \<open>Transactions\<close>

text \<open>
  The six state-changing functions of the public surface, as calls, and what a call
  returns. A transaction that reverts leaves the contract as it was before it.
\<close>

datatype call =
    LogSend address string
  | LogSendFor address address string
  | RegisterPublicKey string
  | RegisterPublicKeyFor address string
  | SetRelayAddress address
  | TransferOwnership address

datatype retval = RetId nat | RetUnit

definition returning_id :: "error + nat \<times> ChainMail \<Rightarrow> error + retval \<times> ChainMail" where
  "returning_id x = (case x of Inl err \<Rightarrow> Inl err | Inr (i, s') \<Rightarrow> Inr (RetId i, s'))"

definition returning_unit :: "error + ChainMail \<Rightarrow> error + retval \<times> ChainMail" where
  "returning_unit x = (case x of Inl err \<Rightarrow> Inl err | Inr s' \<Rightarrow> Inr (RetUnit, s'))"

fun exec :: "env \<Rightarrow> call \<Rightarrow> ChainMail \<Rightarrow> error + retval \<times> ChainMail" where
  "exec e (LogSend r h) s = returning_id (logSend e r h s)"
| "exec e (LogSendFor a r h) s = returning_id (logSendFor e a r h s)"
| "exec e (RegisterPublicKey k) s = returning_unit (registerPublicKey e k s)"
| "exec e (RegisterPublicKeyFor u k) s = returning_unit (registerPublicKeyFor e u k s)"
| "exec e (SetRelayAddress a) s = returning_unit (setRelayAddress e a s)"
| "exec e (TransferOwnership a) s = returning_unit (transferOwnership e a s)"

definition transact :: "env \<Rightarrow> call \<Rightarrow> ChainMail \<Rightarrow> (error + retval) \<times> ChainMail" where
  "transact e c s = (case exec e c s of Inl err \<Rightarrow> (Inl err, s) | Inr (r, s') \<Rightarrow> (Inr r, s'))"

text \<open>A sequence of transactions, each with its own caller and block.\<close>

fun run :: "(env \<times> call) list \<Rightarrow> ChainMail \<Rightarrow> ChainMail" where
  "run [] s = s"
| "run ((e, c) # tr) s = run tr (snd (transact e c s))"

subsection \<open>Observing a sequence of transactions\<close>

fun is_submission :: "call \<Rightarrow> bool" where
  "is_submission (LogSend r h) = True"
| "is_submission (LogSendFor a r h) = True"
| "is_submission _ = False"

text \<open>
  The values returned by the successful submissions of a sequence of transactions, in
  the order of the transactions.
\<close>

fun submission_results :: "(env \<times> call) list \<Rightarrow> ChainMail \<Rightarrow> retval list" where
  "submission_results [] s = []"
| "submission_results ((e, c) # tr) s =
     (case transact e c s of
        (Inr r, s') \<Rightarrow> (if is_submission c then r # submission_results tr s'
                        else submission_results tr s')
      | (Inl err, s') \<Rightarrow> submission_results tr s')"

subsection \<open>Records seen through the read operations\<close>

text \<open>
  The recipient and the sender of record \<open>k\<close> as \<^verbatim>\<open>getEmail\<close> reports them, and the
  relation between the two indices and the stored records.
\<close>

definition recipient_of :: "ChainMail \<Rightarrow> nat \<Rightarrow> address option" where
  "recipient_of s k = (case getEmail s k of Inl err \<Rightarrow> None | Inr (a, r, h, t, i) \<Rightarrow> Some r)"

definition sender_of :: "ChainMail \<Rightarrow> nat \<Rightarrow> address option" where
  "sender_of s k = (case getEmail s k of Inl err \<Rightarrow> None | Inr (a, r, h, t, i) \<Rightarrow> Some a)"

definition indices_consistent :: "ChainMail \<Rightarrow> bool" where
  "indices_consistent s \<longleftrightarrow>
     (\<forall>a. recipientEmails s a = filter (\<lambda>k. recipient (emails s k) = a) [1 ..< emailCount s + 1]) \<and>
     (\<forall>a. senderEmails s a = filter (\<lambda>k. sender (emails s k) = a) [1 ..< emailCount s + 1])"

subsection \<open>Key registrations and storage\<close>

text \<open>
  The key a call registers for account \<open>a\<close> when it succeeds; the keys registered for
  \<open>a\<close> by the successful transactions of a sequence, in order; the outcomes of a
  sequence; the storage variables of the contract without its event log; and what the
  five read functions return.
\<close>

fun registered_key :: "address \<Rightarrow> env \<Rightarrow> call \<Rightarrow> string option" where
  "registered_key a e (RegisterPublicKey k) = (if msg_sender e = a then Some k else None)"
| "registered_key a e (RegisterPublicKeyFor u k) = (if u = a then Some k else None)"
| "registered_key a e _ = None"

fun registrations :: "address \<Rightarrow> (env \<times> call) list \<Rightarrow> ChainMail \<Rightarrow> string list" where
  "registrations a [] s = []"
| "registrations a ((e, c) # tr) s =
     (case transact e c s of
        (Inr r, s') \<Rightarrow>
          (case registered_key a e c of
             Some k \<Rightarrow> k # registrations a tr s'
           | None \<Rightarrow> registrations a tr s')
      | (Inl err, s') \<Rightarrow> registrations a tr s')"

fun outcomes :: "(env \<times> call) list \<Rightarrow> ChainMail \<Rightarrow> (error + retval) list" where
  "outcomes [] s = []"
| "outcomes ((e, c) # tr) s = fst (transact e c s) # outcomes tr (snd (transact e c s))"

definition storage ::
  "ChainMail \<Rightarrow> (nat \<Rightarrow> Email) \<times> nat \<times> (address \<Rightarrow> nat list) \<times> (address \<Rightarrow> nat list) \<times>
     (address \<Rightarrow> string) \<times> address \<times> address" where
  "storage s = (emails s, emailCount s, recipientEmails s, senderEmails s, publicKeys s,
     owner s, relayAddress s)"

definition read_surface ::
  "ChainMail \<Rightarrow> (address \<Rightarrow> nat list) \<times> (address \<Rightarrow> nat list) \<times>
     (nat \<Rightarrow> error + address \<times> address \<times> string \<times> nat \<times> bool) \<times> (address \<Rightarrow> string) \<times> nat" where
  "read_surface s = (getRecipientEmails s, getSenderEmails s, getEmail s, getPublicKey s,
     getTotalEmails s)"

fun is_SetRelayAddress :: "call \<Rightarrow> bool" where
  "is_SetRelayAddress (SetRelayAddress n) = True"
| "is_SetRelayAddress _ = False"

section \<open>The relay's send-email endpoint\<close>

text \<open>
  The handler \<^verbatim>\<open>POST\<close> of \<^verbatim>\<open>app/api/relay/send-email/route.ts\<close>. Everything outside
  the handler is given by a \<open>world\<close>: the parsed request body, the three environment
  variables, and for each call into the ethers library whether it returns or throws.

  A JavaScript value, as far as the handler looks at it: \<^verbatim>\<open>!v\<close> holds of
  \<^verbatim>\<open>undefined\<close>, \<^verbatim>\<open>null\<close>, \<^verbatim>\<open>false\<close>, \<^verbatim>\<open>0\<close> and the empty string.
\<close>

datatype jsval = JUndefined | JNull | JBool bool | JNumber real | JString string | JObject

fun truthy :: "jsval \<Rightarrow> bool" where
  "truthy JUndefined = False"
| "truthy JNull = False"
| "truthy (JBool b) = b"
| "truthy (JNumber x) = (x \<noteq> 0)"
| "truthy (JString s) = (s \<noteq> [])"
| "truthy JObject = True"

text \<open>An environment variable is a string or undefined.\<close>

definition env_truthy :: "string option \<Rightarrow> bool" where
  "env_truthy v = (case v of None \<Rightarrow> False | Some s \<Rightarrow> s \<noteq> [])"

text \<open>What a \<^verbatim>\<open>throw\<close> carries: an instance of \<^verbatim>\<open>Error\<close> with its message, or any other value.\<close>

datatype thrown = ErrorInstance string | OtherValue jsval

text \<open>
  Of the transaction receipt the handler uses the first log whose topic is that of
  \<^verbatim>\<open>EmailSent\<close> (absent, or decoded by \<^verbatim>\<open>parseLog\<close> to its first argument, or
  \<^verbatim>\<open>parseLog\<close> throws), the hash and the gas used.
\<close>

record receipt =
  emailSent :: "(thrown + nat) option"
  receipt_hash :: string
  gasUsed :: nat

text \<open>
  \<open>request_json\<close> is the outcome of \<^verbatim>\<open>await request.json()\<close> destructured into
  \<^verbatim>\<open>recipientAddress\<close>, \<^verbatim>\<open>ipfsHash\<close>, \<^verbatim>\<open>userAddress\<close>; \<open>new_Wallet\<close> that of building the
  provider and the wallet; \<open>getBalance\<close> the balance in wei; \<open>parseFloat_formatEther\<close> the
  library's conversion of a balance to a floating-point number of ether, and \<open>js_Number\<close>
  that of an integer to a number.
\<close>

record world =
  request_json :: "thrown + jsval \<times> jsval \<times> jsval"
  RELAY_WALLET_PRIVATE_KEY :: "string option"
  NEXT_PUBLIC_BLOCKDAG_RPC_URL :: "string option"
  NEXT_PUBLIC_CHAINMAIL_CONTRACT_ADDRESS :: "string option"
  new_Wallet :: "thrown option"
  getBalance :: "thrown + nat"
  parseFloat_formatEther :: "nat \<Rightarrow> real"
  new_Contract :: "thrown option"
  contract_logSendFor :: "thrown option"
  tx_wait :: "thrown + receipt"
  js_Number :: "nat \<Rightarrow> real"

datatype response = Json_error nat string | Json_success real string nat

datatype effect = Call_getBalance | Call_logSendFor jsval jsval jsval | Call_wait

text \<open>The literal \<^verbatim>\<open>0.001\<close>: the double nearest to one thousandth.\<close>

definition min_balance :: real where
  "min_balance = 1152921504606847 / 2 ^ 60"

definition try_block :: "world \<Rightarrow> (thrown + response) \<times> effect list" where
  "try_block w =
     (case request_json w of
        Inl t \<Rightarrow> (Inl t, [])
      | Inr (recipientAddress, ipfsHash', userAddress) \<Rightarrow>
          if \<not> truthy recipientAddress \<or> \<not> truthy ipfsHash' \<or> \<not> truthy userAddress
          then (Inr (Json_error 400 ''Missing required fields''), [])
          else if \<not> env_truthy (RELAY_WALLET_PRIVATE_KEY w) \<or>
                  RELAY_WALLET_PRIVATE_KEY w = Some ''your_relay_wallet_private_key_here''
          then (Inr (Json_error 500 ''Relay wallet not configured''), [])
          else if \<not> env_truthy (NEXT_PUBLIC_BLOCKDAG_RPC_URL w) \<or>
                  \<not> env_truthy (NEXT_PUBLIC_CHAINMAIL_CONTRACT_ADDRESS w)
          then (Inr (Json_error 500 ''Blockchain configuration missing''), [])
          else
            (case new_Wallet w of
               Some t \<Rightarrow> (Inl t, [])
             | None \<Rightarrow>
                 (case getBalance w of
                    Inl t \<Rightarrow> (Inl t, [Call_getBalance])
                  | Inr balance \<Rightarrow>
                      if parseFloat_formatEther w balance < min_balance
                      then (Inr (Json_error 500 ''Relay wallet balance too low''),
                            [Call_getBalance])
                      else
                        (case new_Contract w of
                           Some t \<Rightarrow> (Inl t, [Call_getBalance])
                         | None \<Rightarrow>
                             (case contract_logSendFor w of
                                Some t \<Rightarrow>
                                  (Inl t, [Call_getBalance,
                                     Call_logSendFor userAddress recipientAddress ipfsHash'])
                              | None \<Rightarrow>
                                  (case tx_wait w of
                                     Inl t \<Rightarrow>
                                       (Inl t, [Call_getBalance,
                                          Call_logSendFor userAddress recipientAddress ipfsHash',
                                          Call_wait])
                                   | Inr receipt \<Rightarrow>
                                       (case emailSent receipt of
                                          Some (Inl t) \<Rightarrow>
                                            (Inl t, [Call_getBalance,
                                               Call_logSendFor userAddress recipientAddress ipfsHash',
                                               Call_wait])
                                        | Some (Inr i) \<Rightarrow>
                                            (Inr (Json_success (if i = 0 then 0 else js_Number w i)
                                               (receipt_hash receipt) (gasUsed receipt)),
                                             [Call_getBalance,
                                              Call_logSendFor userAddress recipientAddress ipfsHash',
                                              Call_wait])
                                        | None \<Rightarrow>
                                            (Inr (Json_success 0
                                               (receipt_hash receipt) (gasUsed receipt)),
                                             [Call_getBalance,
                                              Call_logSendFor userAddress recipientAddress ipfsHash',
                                              Call_wait]))))))))"

definition catch_block :: "thrown \<Rightarrow> response" where
  "catch_block error =
     Json_error 500 (case error of ErrorInstance message \<Rightarrow> message | OtherValue v \<Rightarrow> ''Unknown error'')"

definition POST :: "world \<Rightarrow> response \<times> effect list" where
  "POST w = (case try_block w of (Inl t, fx) \<Rightarrow> (catch_block t, fx) | (Inr resp, fx) \<Rightarrow> (resp, fx))"

text \<open>
  What the properties of the endpoint speak of: an error response, a submission to the
  ledger among the calls made, and configuration that is absent.
\<close>

fun is_error :: "response \<Rightarrow> bool" where
  "is_error (Json_error status msg) = True"
| "is_error (Json_success i h g) = False"

fun is_submission_call :: "effect \<Rightarrow> bool" where
  "is_submission_call (Call_logSendFor u r h) = True"
| "is_submission_call _ = False"

definition submitted :: "effect list \<Rightarrow> bool" where
  "submitted fx = list_ex is_submission_call fx"

definition configuration_absent :: "world \<Rightarrow> bool" where
  "configuration_absent w \<longleftrightarrow>
     \<not> env_truthy (NEXT_PUBLIC_BLOCKDAG_RPC_URL w) \<or>
     \<not> env_truthy (NEXT_PUBLIC_CHAINMAIL_CONTRACT_ADDRESS w) \<or>
     \<not> env_truthy (RELAY_WALLET_PRIVATE_KEY w)"

section \<open>Example accounts and states\<close>

definition alice :: address where "alice = 1"
definition bob :: address where "bob = 2"
definition relay :: address where "relay = 3"
definition carol :: address where "carol = 4"

definition env_alice :: env where
  "env_alice = \<lparr>msg_sender = alice, block_timestamp = 1000\<rparr>"

definition env_bob :: env where
  "env_bob = \<lparr>msg_sender = bob, block_timestamp = 2000\<rparr>"

definition env_relay :: env where
  "env_relay = \<lparr>msg_sender = relay, block_timestamp = 3000\<rparr>"

text \<open>
  The contract deployed by alice with relay \<open>relay\<close>, after \<open>2 ^ 256 - 1\<close> submissions
  by alice to bob: its counter holds the largest \<^verbatim>\<open>uint256\<close>.
\<close>

definition saturated :: ChainMail where
  "saturated =
     run (replicate (2 ^ 256 - 1) (env_alice, LogSend bob ''cid1'')) (constructor env_alice relay)"

text \<open>A sequence with two successful and one rejected submission.\<close>

definition tr2 :: "(env \<times> call) list" where
  "tr2 = [(env_alice, LogSend bob ''cid1''), (env_bob, LogSendFor alice carol ''cid2''),
          (env_bob, RegisterPublicKey ''key''), (env_relay, LogSendFor bob alice ''cid3'')]"

text \<open>The state after that sequence: two records.\<close>

definition s2 :: ChainMail where
  "s2 = run tr2 (constructor env_alice relay)"

definition env_carol :: env where
  "env_carol = \<lparr>msg_sender = carol, block_timestamp = 4000\<rparr>"

text \<open>The contract as alice deploys it with relay \<open>relay\<close>.\<close>

definition s0 :: ChainMail where
  "s0 = constructor env_alice relay"

text \<open>
  Worlds for the endpoint: one where every step succeeds, and variants where the ledger
  rejects the submission, the relay balance is low, the contract address is not
  configured, and the submission throws a string.
\<close>

definition w_fine :: world where
  "w_fine =
     \<lparr>request_json = Inr (JString ''0xB0b'', JString ''cid1'', JString ''0xA11ce''),
      RELAY_WALLET_PRIVATE_KEY = Some ''0x01'',
      NEXT_PUBLIC_BLOCKDAG_RPC_URL = Some ''https://rpc.example'',
      NEXT_PUBLIC_CHAINMAIL_CONTRACT_ADDRESS = Some ''0xC0de'',
      new_Wallet = None,
      getBalance = Inr (5 * 10 ^ 18),
      parseFloat_formatEther = (\<lambda>b. real b / 10 ^ 18),
      new_Contract = None,
      contract_logSendFor = None,
      tx_wait = Inr \<lparr>emailSent = Some (Inr 7), receipt_hash = ''0xabc'', gasUsed = 90000\<rparr>,
      js_Number = real\<rparr>"

definition w_rejected :: world where
  "w_rejected = w_fine\<lparr>contract_logSendFor :=
     Some (ErrorInstance ''execution reverted: Not authorized relay'')\<rparr>"

definition w_poor :: world where
  "w_poor = w_fine\<lparr>getBalance := Inr (10 ^ 14)\<rparr>"

definition w_unconfigured :: world where
  "w_unconfigured = w_fine\<lparr>NEXT_PUBLIC_CHAINMAIL_CONTRACT_ADDRESS := None\<rparr>"

definition w_thrown_string :: world where
  "w_thrown_string = w_fine\<lparr>contract_logSendFor := Some (OtherValue (JString ''nonce too low''))\<rparr>"

section \<open>Properties of the ledger contract\<close>

lemmas fixture_defs =
  alice_def bob_def relay_def carol_def env_alice_def env_bob_def env_relay_def

subsection \<open>The submission primitive\<close>

lemma logEmail_internal_Inr:
  "logEmail_internal e a r h s = Inr (i, s') \<Longrightarrow>
     a \<noteq> 0 \<and> r \<noteq> 0 \<and> h \<noteq> [] \<and> emailCount s < MAX_UINT256 \<and> i = emailCount s + 1 \<and>
     s' = s\<lparr>emailCount := i,
            emails := (emails s)(i := \<lparr>sender = a, recipient = r, ipfsHash = h,
               timestamp = block_timestamp e, isImmutable = True\<rparr>),
            recipientEmails := (recipientEmails s)(r := recipientEmails s r @ [i]),
            senderEmails := (senderEmails s)(a := senderEmails s a @ [i]),
            eventLog := eventLog s @ [EmailSent i a r h (block_timestamp e)]\<rparr>"
  by (auto simp: logEmail_internal_def require_def Let_def MAX_UINT256_def split: if_splits)

lemma logEmail_internal_valid:
  "a \<noteq> 0 \<Longrightarrow> r \<noteq> 0 \<Longrightarrow> h \<noteq> [] \<Longrightarrow> emailCount s < MAX_UINT256 \<Longrightarrow>
   logEmail_internal e a r h s = Inr (emailCount s + 1,
     s\<lparr>emailCount := emailCount s + 1,
       emails := (emails s)(emailCount s + 1 := \<lparr>sender = a, recipient = r, ipfsHash = h,
          timestamp = block_timestamp e, isImmutable = True\<rparr>),
       recipientEmails := (recipientEmails s)(r := recipientEmails s r @ [emailCount s + 1]),
       senderEmails := (senderEmails s)(a := senderEmails s a @ [emailCount s + 1]),
       eventLog := eventLog s @ [EmailSent (emailCount s + 1) a r h (block_timestamp e)]\<rparr>)"
  by (simp add: logEmail_internal_def require_def Let_def)

subsection \<open>A counter that has reached the largest value\<close>

lemma snd_transact_LogSend_valid:
  "msg_sender e \<noteq> 0 \<Longrightarrow> r \<noteq> 0 \<Longrightarrow> h \<noteq> [] \<Longrightarrow> emailCount s \<le> MAX_UINT256 \<Longrightarrow>
   emailCount (snd (transact e (LogSend r h) s)) = min (emailCount s + 1) MAX_UINT256"
  by (cases "emailCount s < MAX_UINT256")
     (auto simp: transact_def logSend_def logEmail_internal_def require_def Let_def
           returning_id_def)

lemma emailCount_run_replicate:
  assumes "msg_sender e \<noteq> 0" "r \<noteq> 0" "h \<noteq> []" "emailCount s \<le> MAX_UINT256"
  shows "emailCount (run (replicate n (e, LogSend r h)) s) = min (emailCount s + n) MAX_UINT256"
  using assms(4)
proof (induction n arbitrary: s)
  case 0
  then show ?case by simp
next
  case (Suc n)
  then show ?case using assms by (simp add: snd_transact_LogSend_valid)
qed

lemma emailCount_saturated: "emailCount saturated = MAX_UINT256"
  unfolding saturated_def
  by (subst emailCount_run_replicate) (simp_all add: fixture_defs constructor_def MAX_UINT256_def)

subsection \<open>Submission and retrieval\<close>

text \<open>
  Claim C1, as amended. In a state whose counter is below \<open>2 ^ 256 - 1\<close>, \<^verbatim>\<open>logSend\<close>
  called by a non-zero sender with a non-zero recipient and a non-empty content pointer
  returns an id, and \<^verbatim>\<open>getEmail\<close> of that id in the resulting state returns the sender,
  the recipient, the content pointer, the block timestamp of the call and
  \<^verbatim>\<open>isImmutable = true\<close>.
\<close>

theorem logSend_getEmail_roundtrip:
  assumes "msg_sender e \<noteq> 0" "r \<noteq> 0" "h \<noteq> []" "emailCount s < MAX_UINT256"
  shows "\<exists>i s'. logSend e r h s = Inr (i, s') \<and>
     getEmail s' i = Inr (msg_sender e, r, h, block_timestamp e, True)"
  using assms by (simp add: logSend_def logEmail_internal_valid getEmail_def require_def Let_def)

theorem logSend_getEmail_roundtrip_witness:
  "msg_sender env_alice \<noteq> 0 \<and> bob \<noteq> 0 \<and> ''cid1'' \<noteq> [] \<and>
   emailCount (constructor env_alice relay) < MAX_UINT256 \<and>
   (\<exists>i s'. logSend env_alice bob ''cid1'' (constructor env_alice relay) = Inr (i, s') \<and>
     getEmail s' i = Inr (alice, bob, ''cid1'', 1000, True))"
  using logSend_getEmail_roundtrip [of env_alice bob "''cid1''" "constructor env_alice relay"]
  by (simp add: fixture_defs constructor_def MAX_UINT256_def)

text \<open>
  Claim C1 as stated has no condition on the counter. With the counter at
  \<open>2 ^ 256 - 1\<close> the checked increment reverts, so a valid submission returns no id.
\<close>

theorem logSend_counter_full_counterexample:
  "msg_sender env_alice \<noteq> 0 \<and> bob \<noteq> 0 \<and> ''cid1'' \<noteq> [] \<and>
   logSend env_alice bob ''cid1'' saturated = Inl (Panic 17)"
  by (simp add: logSend_def logEmail_internal_def require_def emailCount_saturated fixture_defs)

subsection \<open>Dense identifiers\<close>

lemma transact_Inl: "transact e c s = (Inl err, s') \<Longrightarrow> s' = s"
  by (auto simp: transact_def split: sum.splits prod.splits)

lemma transact_submission:
  "transact e c s = (Inr r, s') \<Longrightarrow> is_submission c \<Longrightarrow>
     r = RetId (emailCount s + 1) \<and> emailCount s' = emailCount s + 1"
  by (cases c)
     (auto simp: transact_def logSend_def logSendFor_def onlyRelay_def require_def returning_id_def
           dest!: logEmail_internal_Inr split: sum.splits prod.splits if_splits)

lemma transact_other:
  "transact e c s = (Inr r, s') \<Longrightarrow> \<not> is_submission c \<Longrightarrow>
     emailCount s' = emailCount s \<and> emails s' = emails s \<and>
     recipientEmails s' = recipientEmails s \<and> senderEmails s' = senderEmails s"
  by (cases c)
     (auto simp: transact_def registerPublicKey_def registerPublicKeyFor_def onlyRelay_def
           require_def setPublicKey_internal_def setRelayAddress_def onlyOwner_def transferOwnership_def
           returning_unit_def split: sum.splits prod.splits if_splits)

lemma submission_results_run:
  "emailCount s \<le> emailCount (run tr s) \<and>
   submission_results tr s = map RetId [emailCount s + 1 ..< emailCount (run tr s) + 1]"
proof (induction tr arbitrary: s)
  case Nil
  show ?case by simp
next
  case (Cons x tr)
  obtain e c where x: "x = (e, c)" by (cases x)
  obtain res s' where t: "transact e c s = (res, s')" by (cases "transact e c s")
  note IH = Cons.IH [of s']
  show ?case
  proof (cases res)
    case (Inl err)
    with t have "s' = s" by (simp add: transact_Inl)
    with IH x t Inl show ?thesis by simp
  next
    case (Inr r)
    show ?thesis
    proof (cases "is_submission c")
      case True
      with t Inr have *: "r = RetId (emailCount s + 1)" "emailCount s' = emailCount s + 1"
        using transact_submission by blast+
      with IH have "emailCount s + 1 \<le> emailCount (run tr s')" by simp
      then have "[emailCount s + 1 ..< emailCount (run tr s') + 1] =
            (emailCount s + 1) # [emailCount s' + 1 ..< emailCount (run tr s') + 1]"
        using * by (simp add: upt_conv_Cons)
      with IH x t Inr True * show ?thesis by simp
    next
      case False
      with t Inr have "emailCount s' = emailCount s" using transact_other by blast
      with IH x t Inr False show ?thesis by simp
    qed
  qed
qed

text \<open>
  Claim C2. Take any sequence of transactions on a freshly deployed contract (any calls,
  any callers, failed ones included) and let N be the number of its successful
  submissions. Those submissions returned the ids 1, 2, ..., N in that order,
  \<^verbatim>\<open>getTotalEmails\<close> returns N, \<^verbatim>\<open>getEmail k\<close> succeeds for every k from 1 to N and
  rejects for k = 0 and k = N + 1.
\<close>

theorem ids_dense_from_one:
  "submission_results tr (constructor e0 a) =
     map RetId [1 ..< length (submission_results tr (constructor e0 a)) + 1] \<and>
   getTotalEmails (run tr (constructor e0 a)) = length (submission_results tr (constructor e0 a)) \<and>
   (\<forall>k. 1 \<le> k \<and> k \<le> length (submission_results tr (constructor e0 a)) \<longrightarrow>
      (\<exists>rec. getEmail (run tr (constructor e0 a)) k = Inr rec)) \<and>
   getEmail (run tr (constructor e0 a)) 0 = Inl (Error ''Invalid email ID'') \<and>
   getEmail (run tr (constructor e0 a)) (length (submission_results tr (constructor e0 a)) + 1) =
     Inl (Error ''Invalid email ID'')"
proof -
  let ?s0 = "constructor e0 a"
  have c0: "emailCount ?s0 = 0" by (simp add: constructor_def)
  from submission_results_run [of ?s0 tr]
  have r: "submission_results tr ?s0 = map RetId [1 ..< emailCount (run tr ?s0) + 1]"
    by (simp add: c0)
  then have n: "length (submission_results tr ?s0) = emailCount (run tr ?s0)" by simp
  show ?thesis
    unfolding n using r by (simp add: getTotalEmails_def getEmail_def require_def Let_def)
qed

lemma submission_results_tr2:
  "submission_results tr2 (constructor env_alice relay) = [RetId 1, RetId 2]"
  by (simp add: tr2_def fixture_defs constructor_def transact_def logSend_def logSendFor_def
     onlyRelay_def require_def logEmail_internal_def registerPublicKey_def
     setPublicKey_internal_def Let_def MAX_UINT256_def returning_id_def returning_unit_def)

theorem ids_dense_from_one_witness:
  "submission_results tr2 (constructor env_alice relay) = [RetId 1, RetId 2] \<and>
   getTotalEmails (run tr2 (constructor env_alice relay)) = 2 \<and>
   (\<exists>rec. getEmail (run tr2 (constructor env_alice relay)) 1 = Inr rec) \<and>
   (\<exists>rec. getEmail (run tr2 (constructor env_alice relay)) 2 = Inr rec) \<and>
   getEmail (run tr2 (constructor env_alice relay)) 0 = Inl (Error ''Invalid email ID'') \<and>
   getEmail (run tr2 (constructor env_alice relay)) 3 = Inl (Error ''Invalid email ID'')"
  using ids_dense_from_one [of tr2 env_alice relay]
  by (simp add: submission_results_tr2 numeral_3_eq_3)

subsection \<open>Immutable records and exact indices\<close>

lemma transact_submission_state:
  assumes "transact e c s = (Inr rv, s')" "is_submission c"
  shows "\<exists>a r h. a \<noteq> 0 \<and> r \<noteq> 0 \<and> h \<noteq> [] \<and> emailCount s < MAX_UINT256 \<and>
      rv = RetId (emailCount s + 1) \<and>
      s' = s\<lparr>emailCount := emailCount s + 1,
           emails := (emails s)(emailCount s + 1 := \<lparr>sender = a, recipient = r, ipfsHash = h,
              timestamp = block_timestamp e, isImmutable = True\<rparr>),
           recipientEmails := (recipientEmails s)(r := recipientEmails s r @ [emailCount s + 1]),
           senderEmails := (senderEmails s)(a := senderEmails s a @ [emailCount s + 1]),
           eventLog := eventLog s @ [EmailSent (emailCount s + 1) a r h (block_timestamp e)]\<rparr>"
proof (cases c)
  case (LogSend r h)
  with assms obtain i where "logEmail_internal e (msg_sender e) r h s = Inr (i, s')" "rv = RetId i"
    by (auto simp: transact_def logSend_def returning_id_def split: sum.splits prod.splits)
  then show ?thesis using logEmail_internal_Inr [of e "msg_sender e" r h s i s'] by blast
next
  case (LogSendFor a r h)
  with assms obtain i where "logEmail_internal e a r h s = Inr (i, s')" "rv = RetId i"
    by (auto simp: transact_def logSendFor_def onlyRelay_def require_def returning_id_def
             split: sum.splits prod.splits if_splits)
  then show ?thesis using logEmail_internal_Inr [of e a r h s i s'] by blast
qed (use assms in simp_all)

lemma transact_other_unit:
  "transact e c s = (Inr rv, s') \<Longrightarrow> \<not> is_submission c \<Longrightarrow> rv = RetUnit"
  by (cases c) (auto simp: transact_def returning_unit_def split: sum.splits prod.splits)

lemma transact_cases:
  obtains (rejected) err where "transact e c s = (Inl err, s)"
  | (submitted) a r h where "is_submission c" "a \<noteq> 0" "r \<noteq> 0" "h \<noteq> []"
      "emailCount s < MAX_UINT256"
      "transact e c s = (Inr (RetId (emailCount s + 1)),
         s\<lparr>emailCount := emailCount s + 1,
           emails := (emails s)(emailCount s + 1 := \<lparr>sender = a, recipient = r, ipfsHash = h,
              timestamp = block_timestamp e, isImmutable = True\<rparr>),
           recipientEmails := (recipientEmails s)(r := recipientEmails s r @ [emailCount s + 1]),
           senderEmails := (senderEmails s)(a := senderEmails s a @ [emailCount s + 1]),
           eventLog := eventLog s @ [EmailSent (emailCount s + 1) a r h (block_timestamp e)]\<rparr>)"
  | (other) s' where "\<not> is_submission c" "transact e c s = (Inr RetUnit, s')"
      "emailCount s' = emailCount s" "emails s' = emails s"
      "recipientEmails s' = recipientEmails s" "senderEmails s' = senderEmails s"
proof (cases "transact e c s")
  case (Pair res s')
  show thesis
  proof (cases res)
    case (Inl err)
    with Pair have "transact e c s = (Inl err, s)" using transact_Inl by blast
    then show thesis by (rule rejected)
  next
    case (Inr rv)
    show thesis
    proof (cases "is_submission c")
      case True
      from transact_submission_state [of e c s rv s'] Pair Inr True
      obtain a r h where "a \<noteq> 0" "r \<noteq> 0" "h \<noteq> []" "emailCount s < MAX_UINT256"
        "rv = RetId (emailCount s + 1)"
        "s' = s\<lparr>emailCount := emailCount s + 1,
           emails := (emails s)(emailCount s + 1 := \<lparr>sender = a, recipient = r, ipfsHash = h,
              timestamp = block_timestamp e, isImmutable = True\<rparr>),
           recipientEmails := (recipientEmails s)(r := recipientEmails s r @ [emailCount s + 1]),
           senderEmails := (senderEmails s)(a := senderEmails s a @ [emailCount s + 1]),
           eventLog := eventLog s @ [EmailSent (emailCount s + 1) a r h (block_timestamp e)]\<rparr>"
        by blast
      with Pair Inr True show thesis by (intro submitted [of a r h]) simp_all
    next
      case False
      with Pair Inr have "rv = RetUnit" using transact_other_unit by blast
      with Pair Inr False transact_other [of e c s rv s'] show thesis
        by (intro other [of s']) simp_all
    qed
  qed
qed

text \<open>
  Claim C3. For every transaction of the public state-changing surface (\<^verbatim>\<open>logSend\<close>,
  \<^verbatim>\<open>logSendFor\<close>, \<^verbatim>\<open>registerPublicKey\<close>, \<^verbatim>\<open>registerPublicKeyFor\<close>, \<^verbatim>\<open>setRelayAddress\<close>,
  \<^verbatim>\<open>transferOwnership\<close>), whatever its caller and arguments and whether it succeeds or
  reverts: every record with an id from 1 to \<^verbatim>\<open>emailCount\<close> is stored and read back
  unchanged afterwards, each recipient and sender index keeps its old entries as a
  prefix of the new list, and the counter does not decrease.
\<close>

theorem records_immutable_indices_append_only:
  "(\<forall>k. 1 \<le> k \<and> k \<le> emailCount s \<longrightarrow>
      emails (snd (transact e c s)) k = emails s k \<and>
      getEmail (snd (transact e c s)) k = getEmail s k) \<and>
   (\<forall>a. prefix (getRecipientEmails s a) (getRecipientEmails (snd (transact e c s)) a)) \<and>
   (\<forall>a. prefix (getSenderEmails s a) (getSenderEmails (snd (transact e c s)) a)) \<and>
   emailCount s \<le> emailCount (snd (transact e c s))"
  by (cases e c s rule: transact_cases)
     (auto simp: getEmail_def require_def getRecipientEmails_def getSenderEmails_def)

lemma indices_consistent_constructor: "indices_consistent (constructor e a)"
  by (simp add: indices_consistent_def constructor_def)

lemma filter_upt_fresh:
  "filter (\<lambda>k. P ((f(Suc n := v)) k)) [1 ..< Suc n + 1] =
     filter (\<lambda>k. P (f k)) [1 ..< n + 1] @ (if P v then [Suc n] else [])"
proof -
  have "filter (\<lambda>k. P ((f(Suc n := v)) k)) [1 ..< n + 1] = filter (\<lambda>k. P (f k)) [1 ..< n + 1]"
    by (rule filter_cong) auto
  moreover have "[1 ..< Suc n + 1] = [1 ..< n + 1] @ [Suc n]" by simp
  ultimately show ?thesis by (simp only: filter_append filter.simps fun_upd_same)
qed

lemma indices_consistent_transact:
  assumes "indices_consistent s"
  shows "indices_consistent (snd (transact e c s))"
proof (cases e c s rule: transact_cases)
  case (rejected err)
  with assms show ?thesis by simp
next
  case (submitted a r h)
  let ?n = "emailCount s"
  let ?v = "\<lparr>sender = a, recipient = r, ipfsHash = h,
              timestamp = block_timestamp e, isImmutable = True\<rparr>"
  define s' where "s' = snd (transact e c s)"
  have c: "emailCount s' = Suc ?n"
    and m: "emails s' = (emails s)(Suc ?n := ?v)"
    and ri: "recipientEmails s' = (recipientEmails s)(r := recipientEmails s r @ [Suc ?n])"
    and si: "senderEmails s' = (senderEmails s)(a := senderEmails s a @ [Suc ?n])"
    by (simp_all add: s'_def submitted(6))
  from assms have
    ro: "\<And>b. recipientEmails s b = filter (\<lambda>k. recipient (emails s k) = b) [1 ..< ?n + 1]" and
    so: "\<And>b. senderEmails s b = filter (\<lambda>k. sender (emails s k) = b) [1 ..< ?n + 1]"
    unfolding indices_consistent_def by blast+
  have "recipientEmails s' b = filter (\<lambda>k. recipient (emails s' k) = b) [1 ..< emailCount s' + 1]"
    for b
    unfolding c m ri filter_upt_fresh [where P = "\<lambda>x. recipient x = b"]
    by (simp add: ro)
  moreover
  have "senderEmails s' b = filter (\<lambda>k. sender (emails s' k) = b) [1 ..< emailCount s' + 1]"
    for b
    unfolding c m si filter_upt_fresh [where P = "\<lambda>x. sender x = b"]
    by (simp add: so)
  ultimately show ?thesis
    unfolding indices_consistent_def s'_def by blast
next
  case (other s')
  with assms show ?thesis by (simp add: indices_consistent_def)
qed

lemma run_invariant:
  assumes "P s" and "\<And>e c s. P s \<Longrightarrow> P (snd (transact e c s))"
  shows "P (run tr s)"
  using assms(1)
proof (induction tr arbitrary: s)
  case Nil
  then show ?case by simp
next
  case (Cons x tr)
  then show ?case by (cases x) (simp add: assms(2))
qed

text \<open>
  Claim C6. After any sequence of transactions on a freshly deployed contract,
  \<^verbatim>\<open>getRecipientEmails r\<close> is the list of the ids from 1 to \<^verbatim>\<open>getTotalEmails\<close>, in
  increasing order (the order of creation), whose record has recipient \<open>r\<close>, and
  \<^verbatim>\<open>getSenderEmails x\<close> is the same for the records with sender \<open>x\<close>.
\<close>

theorem index_lists_exact:
  "getRecipientEmails (run tr (constructor e0 a0)) r =
     filter (\<lambda>k. recipient_of (run tr (constructor e0 a0)) k = Some r)
       [1 ..< getTotalEmails (run tr (constructor e0 a0)) + 1] \<and>
   getSenderEmails (run tr (constructor e0 a0)) x =
     filter (\<lambda>k. sender_of (run tr (constructor e0 a0)) k = Some x)
       [1 ..< getTotalEmails (run tr (constructor e0 a0)) + 1]"
proof -
  let ?s = "run tr (constructor e0 a0)"
  have inv: "indices_consistent ?s"
    by (rule run_invariant [where P = indices_consistent])
       (simp_all add: indices_consistent_constructor indices_consistent_transact)
  have r: "filter (\<lambda>k. recipient_of ?s k = Some r) [1 ..< emailCount ?s + 1] =
           filter (\<lambda>k. recipient (emails ?s k) = r) [1 ..< emailCount ?s + 1]"
    by (rule filter_cong) (auto simp: recipient_of_def getEmail_def require_def Let_def)
  have x: "filter (\<lambda>k. sender_of ?s k = Some x) [1 ..< emailCount ?s + 1] =
           filter (\<lambda>k. sender (emails ?s k) = x) [1 ..< emailCount ?s + 1]"
    by (rule filter_cong) (auto simp: sender_of_def getEmail_def require_def Let_def)
  from inv have "recipientEmails ?s r =
      filter (\<lambda>k. recipient (emails ?s k) = r) [1 ..< emailCount ?s + 1]"
    and "senderEmails ?s x = filter (\<lambda>k. sender (emails ?s k) = x) [1 ..< emailCount ?s + 1]"
    unfolding indices_consistent_def by blast+
  then show ?thesis
    unfolding getRecipientEmails_def getSenderEmails_def getTotalEmails_def r x by blast
qed

subsection \<open>The example state\<close>

lemmas call_defs = require_def onlyOwner_def onlyRelay_def transact_def logSend_def
  logSendFor_def logEmail_internal_def registerPublicKey_def registerPublicKeyFor_def
  setPublicKey_internal_def setRelayAddress_def transferOwnership_def returning_id_def
  returning_unit_def Let_def

lemma fixture_facts:
  "msg_sender env_alice = alice" "msg_sender env_bob = bob" "msg_sender env_relay = relay"
  "block_timestamp env_alice = 1000" "block_timestamp env_bob = 2000"
  "block_timestamp env_relay = 3000"
  "alice \<noteq> 0" "bob \<noteq> 0" "relay \<noteq> 0" "carol \<noteq> 0"
  "alice \<noteq> bob" "alice \<noteq> relay" "alice \<noteq> carol" "bob \<noteq> relay" "bob \<noteq> carol"
  "relay \<noteq> carol" "bob \<noteq> alice" "relay \<noteq> alice" "carol \<noteq> alice" "relay \<noteq> bob"
  "carol \<noteq> bob" "carol \<noteq> relay"
  by (simp_all add: fixture_defs)

lemma s2_eval:
  "emailCount s2 = 2"
  "recipientEmails s2 alice = [2]"
  "senderEmails s2 alice = [1]"
  "senderEmails s2 bob = [2]"
  "owner s2 = alice" "relayAddress s2 = relay"
  "getEmail s2 1 = Inr (alice, bob, ''cid1'', 1000, True)"
  "getEmail s2 2 = Inr (bob, alice, ''cid3'', 3000, True)"
  "getRecipientEmails s2 alice = [2]"
  "getSenderEmails s2 bob = [2]"
  "getTotalEmails s2 = 2"
  by (simp_all add: s2_def tr2_def fixture_facts constructor_def call_defs MAX_UINT256_def
        getEmail_def require_def getRecipientEmails_def getSenderEmails_def getTotalEmails_def)

theorem records_immutable_indices_append_only_witness:
  "emailCount s2 = 2 \<and>
   emails (snd (transact env_bob (LogSend alice ''cid4'') s2)) 1 = emails s2 1 \<and>
   emails (snd (transact env_bob (LogSend alice ''cid4'') s2)) 2 = emails s2 2 \<and>
   getEmail (snd (transact env_bob (LogSend alice ''cid4'') s2)) 2 = getEmail s2 2 \<and>
   prefix (getRecipientEmails s2 alice)
     (getRecipientEmails (snd (transact env_bob (LogSend alice ''cid4'') s2)) alice) \<and>
   prefix (getSenderEmails s2 bob)
     (getSenderEmails (snd (transact env_bob (LogSend alice ''cid4'') s2)) bob) \<and>
   getRecipientEmails (snd (transact env_bob (LogSend alice ''cid4'') s2)) alice = [2, 3]"
proof -
  note th = records_immutable_indices_append_only [of s2 env_bob "LogSend alice ''cid4''"]
  have "getRecipientEmails (snd (transact env_bob (LogSend alice ''cid4'') s2)) alice = [2, 3]"
    by (simp add: s2_eval call_defs getRecipientEmails_def fixture_facts MAX_UINT256_def)
  moreover have "(1::nat) \<le> 1 \<and> 1 \<le> emailCount s2" "(1::nat) \<le> 2 \<and> 2 \<le> emailCount s2"
    by (simp_all add: s2_eval)
  ultimately show ?thesis using th s2_eval(1) by blast
qed

theorem index_lists_exact_witness:
  "getRecipientEmails s2 alice = filter (\<lambda>k. recipient_of s2 k = Some alice) [1 ..< 3] \<and>
   getSenderEmails s2 bob = filter (\<lambda>k. sender_of s2 k = Some bob) [1 ..< 3] \<and>
   getRecipientEmails s2 alice = [2] \<and> getSenderEmails s2 bob = [2]"
proof -
  have e: "getTotalEmails s2 + 1 = 3" by (simp add: s2_eval)
  note th = index_lists_exact [of tr2 env_alice relay alice bob, folded s2_def, unfolded e]
  from th s2_eval(9) s2_eval(10) show ?thesis by blast
qed

subsection \<open>Authorization\<close>

text \<open>
  Claim C4, as amended. \<^verbatim>\<open>logSendFor\<close> and \<^verbatim>\<open>registerPublicKeyFor\<close> called by any
  address other than the current \<^verbatim>\<open>relayAddress\<close> revert with "Not authorized relay",
  whatever their arguments, and leave the state unchanged. \<^verbatim>\<open>logSend\<close> succeeds for every
  non-zero caller given a non-zero recipient, a non-empty content pointer and a counter
  below \<open>2 ^ 256 - 1\<close>; \<^verbatim>\<open>registerPublicKey\<close> succeeds for every non-zero caller given
  a non-empty key.
\<close>

theorem relay_only_authorization:
  "(msg_sender e \<noteq> relayAddress s \<longrightarrow>
      transact e (LogSendFor a r h) s = (Inl (Error ''Not authorized relay''), s) \<and>
      transact e (RegisterPublicKeyFor u k) s = (Inl (Error ''Not authorized relay''), s)) \<and>
   (msg_sender e \<noteq> 0 \<and> r \<noteq> 0 \<and> h \<noteq> [] \<and> emailCount s < MAX_UINT256 \<longrightarrow>
      (\<exists>s'. transact e (LogSend r h) s = (Inr (RetId (emailCount s + 1)), s'))) \<and>
   (msg_sender e \<noteq> 0 \<and> k \<noteq> [] \<longrightarrow>
      (\<exists>s'. transact e (RegisterPublicKey k) s = (Inr RetUnit, s')))"
  by (simp add: call_defs)

theorem relay_only_authorization_witness:
  "msg_sender env_bob \<noteq> relayAddress s2 \<and>
   transact env_bob (LogSendFor alice carol ''cid5'') s2 = (Inl (Error ''Not authorized relay''), s2) \<and>
   transact env_bob (RegisterPublicKeyFor alice ''key'') s2 = (Inl (Error ''Not authorized relay''), s2) \<and>
   msg_sender env_bob \<noteq> 0 \<and> carol \<noteq> 0 \<and> ''cid5'' \<noteq> [] \<and> emailCount s2 < MAX_UINT256 \<and>
   (\<exists>s'. transact env_bob (LogSend carol ''cid5'') s2 = (Inr (RetId 3), s')) \<and>
   ''key'' \<noteq> [] \<and>
   (\<exists>s'. transact env_bob (RegisterPublicKey ''key'') s2 = (Inr RetUnit, s'))"
proof -
  have h: "msg_sender env_bob \<noteq> relayAddress s2" "msg_sender env_bob \<noteq> 0" "carol \<noteq> 0"
    "''cid5'' \<noteq> []" "emailCount s2 < MAX_UINT256" "''key'' \<noteq> []" "emailCount s2 + 1 = 3"
    by (simp_all add: s2_eval fixture_facts MAX_UINT256_def)
  with relay_only_authorization [where e = env_bob and s = s2 and a = alice and r = carol
      and h = "''cid5''" and u = alice and k = "''key''"]
  show ?thesis by simp
qed

text \<open>
  Claim C4 as stated lets \<^verbatim>\<open>logSend\<close> succeed for every caller with valid arguments. With
  the counter at \<open>2 ^ 256 - 1\<close> it reverts for a non-zero caller with valid arguments.
\<close>

theorem logSend_open_counter_full_counterexample:
  "msg_sender env_bob \<noteq> 0 \<and> alice \<noteq> 0 \<and> ''cid2'' \<noteq> [] \<and>
   transact env_bob (LogSend alice ''cid2'') saturated = (Inl (Panic 17), saturated)"
  by (simp add: call_defs emailCount_saturated fixture_facts)

subsection \<open>Rejections\<close>

text \<open>
  Claim C5, as amended. \<^verbatim>\<open>logSend\<close> rejects if and only if the caller (its sender) is
  the zero address, the recipient is the zero address, the content pointer is empty or
  the counter has reached \<open>2 ^ 256 - 1\<close>; \<^verbatim>\<open>logSendFor\<close> rejects if and only if the
  caller is not the relay or one of those four holds of its arguments and the counter.
  A transaction that rejects, whatever the call, leaves the whole state unchanged.
  \<^verbatim>\<open>registerPublicKey\<close> and \<^verbatim>\<open>registerPublicKeyFor\<close> reject on an empty key or a zero
  account, with no state change.
\<close>

theorem validation_failure_atomic:
  "((\<exists>err. fst (transact e (LogSend r h) s) = Inl err) \<longleftrightarrow>
      msg_sender e = 0 \<or> r = 0 \<or> h = [] \<or> MAX_UINT256 \<le> emailCount s) \<and>
   ((\<exists>err. fst (transact e (LogSendFor a r h) s) = Inl err) \<longleftrightarrow>
      msg_sender e \<noteq> relayAddress s \<or> a = 0 \<or> r = 0 \<or> h = [] \<or> MAX_UINT256 \<le> emailCount s) \<and>
   ((\<exists>err. fst (transact e c s) = Inl err) \<longrightarrow> snd (transact e c s) = s) \<and>
   (k = [] \<or> msg_sender e = 0 \<longrightarrow> (\<exists>err. transact e (RegisterPublicKey k) s = (Inl err, s))) \<and>
   (k = [] \<or> u = 0 \<longrightarrow> (\<exists>err. transact e (RegisterPublicKeyFor u k) s = (Inl err, s)))"
proof -
  have "(\<exists>err. fst (transact e (LogSend r h) s) = Inl err) \<longleftrightarrow>
      msg_sender e = 0 \<or> r = 0 \<or> h = [] \<or> MAX_UINT256 \<le> emailCount s"
    by (auto simp: call_defs)
  moreover have "(\<exists>err. fst (transact e (LogSendFor a r h) s) = Inl err) \<longleftrightarrow>
      msg_sender e \<noteq> relayAddress s \<or> a = 0 \<or> r = 0 \<or> h = [] \<or> MAX_UINT256 \<le> emailCount s"
    by (auto simp: call_defs)
  moreover have "(\<exists>err. fst (transact e c s) = Inl err) \<longrightarrow> snd (transact e c s) = s"
    by (cases "transact e c s") (auto dest: transact_Inl)
  moreover have "k = [] \<or> msg_sender e = 0 \<longrightarrow>
      (\<exists>err. transact e (RegisterPublicKey k) s = (Inl err, s))"
    by (auto simp: call_defs)
  moreover have "k = [] \<or> u = 0 \<longrightarrow>
      (\<exists>err. transact e (RegisterPublicKeyFor u k) s = (Inl err, s))"
    by (auto simp: call_defs)
  ultimately show ?thesis by blast
qed

theorem validation_failure_atomic_witness:
  "fst (transact env_bob (LogSend 0 ''cid5'') s2) = Inl (Error ''Invalid recipient address'') \<and>
   fst (transact env_relay (LogSendFor alice carol []) s2) = Inl (Error ''IPFS hash cannot be empty'') \<and>
   snd (transact env_relay (LogSendFor alice carol []) s2) = s2 \<and>
   (\<exists>err. transact env_bob (RegisterPublicKey []) s2 = (Inl err, s2)) \<and>
   (\<exists>err. transact env_relay (RegisterPublicKeyFor 0 []) s2 = (Inl err, s2))"
proof -
  note th = validation_failure_atomic [where e = env_relay and s = s2 and a = alice and r = carol
      and h = "[]" and c = "LogSendFor alice carol []" and k = "[]" and u = 0]
  note th' = validation_failure_atomic [where e = env_bob and s = s2 and r = 0
      and h = "''cid5''" and k = "[]"]
  have 1: "fst (transact env_bob (LogSend 0 ''cid5'') s2) = Inl (Error ''Invalid recipient address'')"
    and 2: "fst (transact env_relay (LogSendFor alice carol []) s2) =
       Inl (Error ''IPFS hash cannot be empty'')"
    by (simp_all add: call_defs fixture_facts s2_eval)
  from th 2 have 3: "snd (transact env_relay (LogSendFor alice carol []) s2) = s2" by blast
  from th have 5: "\<exists>err. transact env_relay (RegisterPublicKeyFor 0 []) s2 = (Inl err, s2)"
    by blast
  from th' have 4: "\<exists>err. transact env_bob (RegisterPublicKey []) s2 = (Inl err, s2)" by blast
  from 1 2 3 4 5 show ?thesis by blast
qed

text \<open>
  Claim C5 as stated makes the three validation failures the only rejections of a
  submission. \<^verbatim>\<open>logSendFor\<close> called by an address that is not the relay rejects a
  submission whose sender and recipient are non-zero and whose content pointer is not
  empty, on a counter far from full.
\<close>

theorem logSendFor_stranger_counterexample:
  "alice \<noteq> 0 \<and> carol \<noteq> 0 \<and> ''cid5'' \<noteq> [] \<and>
   emailCount (constructor env_alice relay) < MAX_UINT256 \<and>
   logSendFor env_bob alice carol ''cid5'' (constructor env_alice relay) =
     Inl (Error ''Not authorized relay'')"
  by (simp add: logSendFor_def onlyRelay_def require_def constructor_def fixture_facts
        MAX_UINT256_def)

subsection \<open>Administration\<close>

text \<open>
  Claim C8. \<^verbatim>\<open>setRelayAddress\<close> and \<^verbatim>\<open>transferOwnership\<close> reject when the caller is not
  the owner and reject when the argument is the zero address, leaving the state
  unchanged. Called by the owner with a non-zero argument \<open>n\<close> they succeed; after
  \<^verbatim>\<open>setRelayAddress n\<close> the relay check of \<^verbatim>\<open>logSendFor\<close> and \<^verbatim>\<open>registerPublicKeyFor\<close>
  fails for exactly the callers other than \<open>n\<close>, and after \<^verbatim>\<open>transferOwnership n\<close> the
  owner check of the two administrative functions fails for exactly the callers other
  than \<open>n\<close>.
\<close>

theorem admin_operations:
  "(msg_sender e \<noteq> owner s \<longrightarrow>
      transact e (SetRelayAddress n) s = (Inl (Error ''Not contract owner''), s) \<and>
      transact e (TransferOwnership n) s = (Inl (Error ''Not contract owner''), s)) \<and>
   (n = 0 \<longrightarrow>
      (\<exists>err. transact e (SetRelayAddress n) s = (Inl err, s)) \<and>
      (\<exists>err. transact e (TransferOwnership n) s = (Inl err, s))) \<and>
   (msg_sender e = owner s \<and> n = 0 \<longrightarrow>
      transact e (SetRelayAddress n) s = (Inl (Error ''Invalid relay address''), s) \<and>
      transact e (TransferOwnership n) s = (Inl (Error ''Invalid owner address''), s)) \<and>
   (msg_sender e = owner s \<and> n \<noteq> 0 \<longrightarrow>
      (\<exists>s'. transact e (SetRelayAddress n) s = (Inr RetUnit, s') \<and>
         relayAddress s' = n \<and> owner s' = owner s \<and>
         (\<forall>e' a r h. logSendFor e' a r h s' = Inl (Error ''Not authorized relay'')
            \<longleftrightarrow> msg_sender e' \<noteq> n) \<and>
         (\<forall>e' u k. registerPublicKeyFor e' u k s' = Inl (Error ''Not authorized relay'')
            \<longleftrightarrow> msg_sender e' \<noteq> n)) \<and>
      (\<exists>s'. transact e (TransferOwnership n) s = (Inr RetUnit, s') \<and>
         owner s' = n \<and> relayAddress s' = relayAddress s \<and>
         (\<forall>e' x. setRelayAddress e' x s' = Inl (Error ''Not contract owner'')
            \<longleftrightarrow> msg_sender e' \<noteq> n) \<and>
         (\<forall>e' x. transferOwnership e' x s' = Inl (Error ''Not contract owner'')
            \<longleftrightarrow> msg_sender e' \<noteq> n)))"
proof -
  have a: "msg_sender e \<noteq> owner s \<longrightarrow>
      transact e (SetRelayAddress n) s = (Inl (Error ''Not contract owner''), s) \<and>
      transact e (TransferOwnership n) s = (Inl (Error ''Not contract owner''), s)"
    by (simp add: call_defs)
  have b: "n = 0 \<longrightarrow>
      (\<exists>err. transact e (SetRelayAddress n) s = (Inl err, s)) \<and>
      (\<exists>err. transact e (TransferOwnership n) s = (Inl err, s))"
    by (simp add: call_defs)
  have c: "msg_sender e = owner s \<and> n = 0 \<longrightarrow>
      transact e (SetRelayAddress n) s = (Inl (Error ''Invalid relay address''), s) \<and>
      transact e (TransferOwnership n) s = (Inl (Error ''Invalid owner address''), s)"
    by (simp add: call_defs)
  have d1: "msg_sender e = owner s \<and> n \<noteq> 0 \<longrightarrow>
      (\<exists>s'. transact e (SetRelayAddress n) s = (Inr RetUnit, s') \<and>
         relayAddress s' = n \<and> owner s' = owner s \<and>
         (\<forall>e' a r h. logSendFor e' a r h s' = Inl (Error ''Not authorized relay'')
            \<longleftrightarrow> msg_sender e' \<noteq> n) \<and>
         (\<forall>e' u k. registerPublicKeyFor e' u k s' = Inl (Error ''Not authorized relay'')
            \<longleftrightarrow> msg_sender e' \<noteq> n))"
    by (simp add: call_defs)
  have d2: "msg_sender e = owner s \<and> n \<noteq> 0 \<longrightarrow>
      (\<exists>s'. transact e (TransferOwnership n) s = (Inr RetUnit, s') \<and>
         owner s' = n \<and> relayAddress s' = relayAddress s \<and>
         (\<forall>e' x. setRelayAddress e' x s' = Inl (Error ''Not contract owner'')
            \<longleftrightarrow> msg_sender e' \<noteq> n) \<and>
         (\<forall>e' x. transferOwnership e' x s' = Inl (Error ''Not contract owner'')
            \<longleftrightarrow> msg_sender e' \<noteq> n))"
    by (simp add: call_defs)
  from a b c d1 d2 show ?thesis by blast
qed

subsection \<open>Deployment\<close>

lemma relayAddress_transact:
  "\<not> is_SetRelayAddress c \<Longrightarrow> relayAddress (snd (transact e c s)) = relayAddress s"
  by (cases c) (auto simp: call_defs)

lemma relayAddress_run:
  "list_all (\<lambda>(e, c). \<not> is_SetRelayAddress c) tr \<Longrightarrow> relayAddress (run tr s) = relayAddress s"
  by (induction tr arbitrary: s) (auto simp: relayAddress_transact)

text \<open>
  Claim C10. The constructor has no rejecting path: for every argument \<open>a\<close>, the zero
  address included, the deployed state has the deployer as owner and \<open>a\<close> as relay
  address, although \<^verbatim>\<open>setRelayAddress\<close> rejects the zero address. Deployed with relay
  0, the contract rejects \<^verbatim>\<open>logSendFor\<close> and \<^verbatim>\<open>registerPublicKeyFor\<close> from every non-zero
  caller, after any sequence of transactions without a \<^verbatim>\<open>setRelayAddress\<close>, and the
  owner's \<^verbatim>\<open>setRelayAddress n\<close> with a non-zero \<open>n\<close> installs \<open>n\<close> as relay.
\<close>

theorem constructor_accepts_any_relay:
  "owner (constructor e a) = msg_sender e \<and> relayAddress (constructor e a) = a \<and>
   relayAddress (constructor e 0) = 0 \<and>
   setRelayAddress e 0 (constructor e a) = Inl (Error ''Invalid relay address'') \<and>
   (list_all (\<lambda>(e, c). \<not> is_SetRelayAddress c) tr \<and> msg_sender e' \<noteq> 0 \<longrightarrow>
      logSendFor e' x r h (run tr (constructor e 0)) = Inl (Error ''Not authorized relay'') \<and>
      registerPublicKeyFor e' u k (run tr (constructor e 0)) = Inl (Error ''Not authorized relay'')) \<and>
   (n \<noteq> 0 \<longrightarrow> (\<exists>s'. setRelayAddress e n (constructor e 0) = Inr s' \<and> relayAddress s' = n))"
proof -
  have "list_all (\<lambda>(e, c). \<not> is_SetRelayAddress c) tr \<and> msg_sender e' \<noteq> 0 \<longrightarrow>
      logSendFor e' x r h (run tr (constructor e 0)) = Inl (Error ''Not authorized relay'') \<and>
      registerPublicKeyFor e' u k (run tr (constructor e 0)) = Inl (Error ''Not authorized relay'')"
    by (auto simp: logSendFor_def onlyRelay_def require_def registerPublicKeyFor_def
          relayAddress_run constructor_def)
  moreover have "n \<noteq> 0 \<longrightarrow> (\<exists>s'. setRelayAddress e n (constructor e 0) = Inr s' \<and> relayAddress s' = n)"
    by (simp add: setRelayAddress_def onlyOwner_def require_def constructor_def)
  moreover have "owner (constructor e a) = msg_sender e \<and> relayAddress (constructor e a) = a \<and>
   relayAddress (constructor e 0) = 0 \<and>
   setRelayAddress e 0 (constructor e a) = Inl (Error ''Invalid relay address'')"
    by (simp add: setRelayAddress_def onlyOwner_def require_def constructor_def)
  ultimately show ?thesis by blast
qed

subsection \<open>The public-key registry is last-write-wins\<close>

lemma storage_eq_iff:
  "storage s = storage t \<longleftrightarrow>
     emails s = emails t \<and> emailCount s = emailCount t \<and> recipientEmails s = recipientEmails t \<and>
     senderEmails s = senderEmails t \<and> publicKeys s = publicKeys t \<and> owner s = owner t \<and>
     relayAddress s = relayAddress t"
  by (simp add: storage_def)

lemma read_surface_storage: "storage s = storage t \<Longrightarrow> read_surface s = read_surface t"
  by (auto simp: storage_eq_iff read_surface_def getRecipientEmails_def getSenderEmails_def
        getEmail_def require_def getPublicKey_def getTotalEmails_def fun_eq_iff)

lemma transact_storage:
  assumes "storage s = storage t"
  shows "fst (transact e c s) = fst (transact e c t) \<and>
         storage (snd (transact e c s)) = storage (snd (transact e c t))"
  using assms by (cases c) (auto simp: storage_eq_iff call_defs)

lemma run_storage:
  "storage s = storage t \<Longrightarrow>
     storage (run tr s) = storage (run tr t) \<and> outcomes tr s = outcomes tr t"
proof (induction tr arbitrary: s t)
  case Nil
  then show ?case by simp
next
  case (Cons x tr)
  obtain e c where x: "x = (e, c)" by (cases x)
  from transact_storage [OF Cons.prems, of e c]
  have f: "fst (transact e c s) = fst (transact e c t)"
    and n: "storage (snd (transact e c s)) = storage (snd (transact e c t))" by blast+
  from Cons.IH [OF n] f x show ?case by simp
qed

lemma publicKeys_transact:
  "publicKeys (snd (transact e c s)) a =
     (case (fst (transact e c s), registered_key a e c) of
        (Inr r, Some k) \<Rightarrow> k
      | _ \<Rightarrow> publicKeys s a)"
  by (cases c) (auto simp: call_defs)

lemma publicKeys_run:
  "publicKeys (run tr s) a =
     (if registrations a tr s = [] then publicKeys s a else last (registrations a tr s))"
proof (induction tr arbitrary: s)
  case Nil
  show ?case by simp
next
  case (Cons x tr)
  obtain e c where x: "x = (e, c)" by (cases x)
  obtain res s' where t: "transact e c s = (res, s')" by (cases "transact e c s")
  from publicKeys_transact [of e c s a] t
  have pk: "publicKeys s' a =
     (case (res, registered_key a e c) of (Inr r, Some k) \<Rightarrow> k | _ \<Rightarrow> publicKeys s a)"
    by simp
  show ?case
    using Cons.IH [of s'] x t pk
    by (auto split: sum.splits option.splits)
qed

lemma registration_storage:
  assumes "registered_key a e c = Some k" "fst (transact e c s) = Inr r"
  shows "storage (snd (transact e c s)) =
     (emails s, emailCount s, recipientEmails s, senderEmails s, (publicKeys s)(a := k),
      owner s, relayAddress s)"
  using assms by (cases c) (auto simp: storage_def call_defs split: if_splits)

lemma registration_independent:
  assumes "registered_key a e c = Some k" "fst (transact e c s) = Inr r"
    "emails s = emails t" "emailCount s = emailCount t" "recipientEmails s = recipientEmails t"
    "senderEmails s = senderEmails t" "owner s = owner t" "relayAddress s = relayAddress t"
    "\<And>b. b \<noteq> a \<Longrightarrow> publicKeys s b = publicKeys t b"
  shows "fst (transact e c t) = Inr r \<and> storage (snd (transact e c s)) = storage (snd (transact e c t))"
  using assms by (cases c) (auto simp: storage_def call_defs fun_eq_iff split: if_splits)

text \<open>
  Claim C7. A freshly deployed contract returns the empty string from \<^verbatim>\<open>getPublicKey\<close>
  for every account, and after any sequence of transactions \<^verbatim>\<open>getPublicKey a\<close> returns
  the key of the last successful registration for \<open>a\<close>, or the empty string when there
  was none. When a registration of key A for \<open>a\<close> is followed by a registration of key B
  for \<open>a\<close> (each by \<open>a\<close> itself or by the relay), \<^verbatim>\<open>getPublicKey a\<close> returns B, and
  the storage of the contract, the outcome of every later transaction and the result of
  every read function are what they would be had A never been registered.
\<close>

theorem public_key_last_write_wins:
  "getPublicKey (constructor e0 r0) a = [] \<and>
   getPublicKey (run tr (constructor e0 r0)) a =
     (if registrations a tr (constructor e0 r0) = [] then []
      else last (registrations a tr (constructor e0 r0))) \<and>
   (registered_key a e1 c1 = Some A \<and> registered_key a e2 c2 = Some B \<and>
    fst (transact e1 c1 s) = Inr RetUnit \<and>
    fst (transact e2 c2 (snd (transact e1 c1 s))) = Inr RetUnit \<longrightarrow>
      getPublicKey (run [(e1, c1), (e2, c2)] s) a = B \<and>
      (\<forall>tr'. storage (run ((e1, c1) # (e2, c2) # tr') s) = storage (run ((e2, c2) # tr') s) \<and>
        read_surface (run ((e1, c1) # (e2, c2) # tr') s) = read_surface (run ((e2, c2) # tr') s) \<and>
        outcomes ((e2, c2) # tr') (snd (transact e1 c1 s)) = outcomes ((e2, c2) # tr') s))"
proof -
  have init: "getPublicKey (constructor e0 r0) a = []"
    by (simp add: getPublicKey_def constructor_def)
  have gen: "getPublicKey (run tr (constructor e0 r0)) a =
     (if registrations a tr (constructor e0 r0) = [] then []
      else last (registrations a tr (constructor e0 r0)))"
    using publicKeys_run [of tr "constructor e0 r0" a] init by (simp add: getPublicKey_def)
  have two: "getPublicKey (run [(e1, c1), (e2, c2)] s) a = B \<and>
      (\<forall>tr'. storage (run ((e1, c1) # (e2, c2) # tr') s) = storage (run ((e2, c2) # tr') s) \<and>
        read_surface (run ((e1, c1) # (e2, c2) # tr') s) = read_surface (run ((e2, c2) # tr') s) \<and>
        outcomes ((e2, c2) # tr') (snd (transact e1 c1 s)) = outcomes ((e2, c2) # tr') s)"
    if h: "registered_key a e1 c1 = Some A" "registered_key a e2 c2 = Some B"
      "fst (transact e1 c1 s) = Inr RetUnit"
      "fst (transact e2 c2 (snd (transact e1 c1 s))) = Inr RetUnit"
  proof -
    let ?s1 = "snd (transact e1 c1 s)"
    let ?s12 = "snd (transact e2 c2 ?s1)"
    let ?s2 = "snd (transact e2 c2 s)"
    from registration_storage [OF h(1) h(3)]
    have s1: "emails ?s1 = emails s" "emailCount ?s1 = emailCount s"
      "recipientEmails ?s1 = recipientEmails s" "senderEmails ?s1 = senderEmails s"
      "owner ?s1 = owner s" "relayAddress ?s1 = relayAddress s"
      "publicKeys ?s1 = (publicKeys s)(a := A)"
      by (simp_all add: storage_def)
    have ind: "fst (transact e2 c2 s) = Inr RetUnit \<and> storage ?s12 = storage ?s2"
      by (rule registration_independent [OF h(2) h(4)]) (simp_all add: s1)
    from registration_storage [OF h(2) h(4)]
    have "publicKeys ?s12 a = B" by (simp add: storage_def)
    then have key: "getPublicKey (run [(e1, c1), (e2, c2)] s) a = B"
      by (simp add: getPublicKey_def)
    have rest: "storage (run ((e1, c1) # (e2, c2) # tr') s) = storage (run ((e2, c2) # tr') s) \<and>
        read_surface (run ((e1, c1) # (e2, c2) # tr') s) = read_surface (run ((e2, c2) # tr') s) \<and>
        outcomes ((e2, c2) # tr') ?s1 = outcomes ((e2, c2) # tr') s" for tr'
    proof -
      from ind have eq: "storage ?s12 = storage ?s2" by blast
      from run_storage [OF eq, of tr']
      have r: "storage (run tr' ?s12) = storage (run tr' ?s2)"
        "outcomes tr' ?s12 = outcomes tr' ?s2" by blast+
      from r(1) have "read_surface (run tr' ?s12) = read_surface (run tr' ?s2)"
        by (rule read_surface_storage)
      with r ind h(4) show ?thesis by simp
    qed
    from key rest show ?thesis by blast
  qed
  from init gen two show ?thesis by blast
qed

subsection \<open>Instances on the example states\<close>

lemma s0_eval:
  "owner s0 = alice" "relayAddress s0 = relay" "emailCount s0 = 0"
  by (simp_all add: s0_def constructor_def fixture_facts)

lemma env_carol_facts: "msg_sender env_carol = carol" "block_timestamp env_carol = 4000"
  by (simp_all add: env_carol_def)

theorem public_key_last_write_wins_witness:
  "registered_key bob env_bob (RegisterPublicKey ''keyA'') = Some ''keyA'' \<and>
   registered_key bob env_relay (RegisterPublicKeyFor bob ''keyB'') = Some ''keyB'' \<and>
   fst (transact env_bob (RegisterPublicKey ''keyA'') s0) = Inr RetUnit \<and>
   fst (transact env_relay (RegisterPublicKeyFor bob ''keyB'')
     (snd (transact env_bob (RegisterPublicKey ''keyA'') s0))) = Inr RetUnit \<and>
   getPublicKey (run [(env_bob, RegisterPublicKey ''keyA''),
     (env_relay, RegisterPublicKeyFor bob ''keyB'')] s0) bob = ''keyB'' \<and>
   storage (run [(env_bob, RegisterPublicKey ''keyA''),
     (env_relay, RegisterPublicKeyFor bob ''keyB'')] s0) =
   storage (run [(env_relay, RegisterPublicKeyFor bob ''keyB'')] s0) \<and>
   getPublicKey (run [(env_bob, RegisterPublicKey ''keyA''),
     (env_relay, RegisterPublicKeyFor bob ''keyB'')] s0) carol = []"
proof -
  let ?t1 = "(env_bob, RegisterPublicKey ''keyA'')"
  let ?t2 = "(env_relay, RegisterPublicKeyFor bob ''keyB'')"
  have h: "registered_key bob env_bob (RegisterPublicKey ''keyA'') = Some ''keyA''"
    "registered_key bob env_relay (RegisterPublicKeyFor bob ''keyB'') = Some ''keyB''"
    "fst (transact env_bob (RegisterPublicKey ''keyA'') s0) = Inr RetUnit"
    "fst (transact env_relay (RegisterPublicKeyFor bob ''keyB'')
       (snd (transact env_bob (RegisterPublicKey ''keyA'') s0))) = Inr RetUnit"
    by (simp_all add: call_defs fixture_facts s0_eval)
  have none: "registrations carol [?t1, ?t2] s0 = []"
    by (simp add: call_defs fixture_facts s0_eval)
  note th = public_key_last_write_wins [where a = bob and ?e1.0 = env_bob
      and ?c1.0 = "RegisterPublicKey ''keyA''" and ?e2.0 = env_relay
      and ?c2.0 = "RegisterPublicKeyFor bob ''keyB''" and s = s0 and A = "''keyA''"
      and B = "''keyB''"]
  from th h have k: "getPublicKey (run [?t1, ?t2] s0) bob = ''keyB''"
    and st: "\<forall>tr'. storage (run (?t1 # ?t2 # tr') s0) = storage (run (?t2 # tr') s0)"
    by blast+
  from st have st0: "storage (run [?t1, ?t2] s0) = storage (run [?t2] s0)" by blast
  from public_key_last_write_wins [where a = carol and tr = "[?t1, ?t2]" and ?e0.0 = env_alice
      and ?r0.0 = relay] none
  have c: "getPublicKey (run [?t1, ?t2] s0) carol = []"
    unfolding s0_def [symmetric] by simp
  from h k st0 c show ?thesis by blast
qed

theorem admin_operations_witness:
  "msg_sender env_bob \<noteq> owner s0 \<and>
   transact env_bob (SetRelayAddress carol) s0 = (Inl (Error ''Not contract owner''), s0) \<and>
   transact env_bob (TransferOwnership carol) s0 = (Inl (Error ''Not contract owner''), s0) \<and>
   msg_sender env_alice = owner s0 \<and>
   transact env_alice (SetRelayAddress 0) s0 = (Inl (Error ''Invalid relay address''), s0) \<and>
   transact env_alice (TransferOwnership 0) s0 = (Inl (Error ''Invalid owner address''), s0) \<and>
   carol \<noteq> 0 \<and>
   (\<exists>s'. transact env_alice (SetRelayAddress carol) s0 = (Inr RetUnit, s') \<and>
      logSendFor env_relay alice bob ''cid1'' s' = Inl (Error ''Not authorized relay'') \<and>
      logSendFor env_carol alice bob ''cid1'' s' \<noteq> Inl (Error ''Not authorized relay'')) \<and>
   (\<exists>s'. transact env_alice (TransferOwnership carol) s0 = (Inr RetUnit, s') \<and>
      setRelayAddress env_alice bob s' = Inl (Error ''Not contract owner'') \<and>
      setRelayAddress env_carol bob s' \<noteq> Inl (Error ''Not contract owner''))"
proof -
  have h: "msg_sender env_bob \<noteq> owner s0" "msg_sender env_alice = owner s0" "carol \<noteq> 0"
    "msg_sender env_relay \<noteq> carol" "msg_sender env_carol = carol" "msg_sender env_alice \<noteq> carol"
    "(0 :: address) = 0"
    by (simp_all add: s0_eval fixture_facts env_carol_facts)
  note a = admin_operations [where e = env_bob and s = s0 and n = carol]
  note b = admin_operations [where e = env_alice and s = s0 and n = 0]
  note c = admin_operations [where e = env_alice and s = s0 and n = carol]
  from a h(1) have 1:
    "transact env_bob (SetRelayAddress carol) s0 = (Inl (Error ''Not contract owner''), s0)"
    "transact env_bob (TransferOwnership carol) s0 = (Inl (Error ''Not contract owner''), s0)"
    by blast+
  from b h(2) have 2:
    "transact env_alice (SetRelayAddress 0) s0 = (Inl (Error ''Invalid relay address''), s0)"
    "transact env_alice (TransferOwnership 0) s0 = (Inl (Error ''Invalid owner address''), s0)"
    by blast+
  from c h(2,3) obtain s' where 3: "transact env_alice (SetRelayAddress carol) s0 = (Inr RetUnit, s')"
    "\<forall>e' a r h. logSendFor e' a r h s' = Inl (Error ''Not authorized relay'')
            \<longleftrightarrow> msg_sender e' \<noteq> carol"
    by blast
  from c h(2,3) obtain s'' where 4: "transact env_alice (TransferOwnership carol) s0 = (Inr RetUnit, s'')"
    "\<forall>e' x. setRelayAddress e' x s'' = Inl (Error ''Not contract owner'')
            \<longleftrightarrow> msg_sender e' \<noteq> carol"
    by blast
  from 3(2) h(4,5) have 5:
    "logSendFor env_relay alice bob ''cid1'' s' = Inl (Error ''Not authorized relay'')"
    "logSendFor env_carol alice bob ''cid1'' s' \<noteq> Inl (Error ''Not authorized relay'')"
    by blast+
  from 4(2) h(5,6) have 6:
    "setRelayAddress env_alice bob s'' = Inl (Error ''Not contract owner'')"
    "setRelayAddress env_carol bob s'' \<noteq> Inl (Error ''Not contract owner'')"
    by blast+
  from h(1,2,3) 1 2 3(1) 4(1) 5 6 show ?thesis by blast
qed

theorem constructor_accepts_any_relay_witness:
  "owner (constructor env_alice 0) = alice \<and> relayAddress (constructor env_alice 0) = 0 \<and>
   setRelayAddress env_alice 0 (constructor env_alice 0) = Inl (Error ''Invalid relay address'') \<and>
   list_all (\<lambda>(e, c). \<not> is_SetRelayAddress c) tr2 \<and> msg_sender env_relay \<noteq> 0 \<and>
   logSendFor env_relay alice bob ''cid1'' (run tr2 (constructor env_alice 0)) =
     Inl (Error ''Not authorized relay'') \<and>
   registerPublicKeyFor env_relay bob ''key'' (run tr2 (constructor env_alice 0)) =
     Inl (Error ''Not authorized relay'') \<and>
   relay \<noteq> 0 \<and>
   (\<exists>s'. setRelayAddress env_alice relay (constructor env_alice 0) = Inr s' \<and>
      relayAddress s' = relay)"
proof -
  have h: "list_all (\<lambda>(e, c). \<not> is_SetRelayAddress c) tr2" "msg_sender env_relay \<noteq> 0"
    "relay \<noteq> 0" "msg_sender env_alice = alice"
    by (simp_all add: tr2_def fixture_facts)
  note th = constructor_accepts_any_relay [where e = env_alice and a = 0 and tr = tr2
      and e' = env_relay and x = alice and r = bob and h = "''cid1''" and u = bob
      and k = "''key''" and n = relay]
  from th h show ?thesis by simp
qed

subsection \<open>The event log, and a first submission\<close>

text \<open>
  The event log is outside what the registry theorem compares: a successful
  registration appends its \<^verbatim>\<open>PublicKeyRegistered\<close> event, key included, and no
  transaction removes an event.
\<close>

lemma registration_event_retained:
  assumes "registered_key a e c = Some k" "fst (transact e c s) = Inr r"
  shows "eventLog (snd (transact e c s)) =
     eventLog s @ [PublicKeyRegistered a k (block_timestamp e)]"
  using assms by (cases c) (auto simp: call_defs split: if_splits)

lemma eventLog_grows: "prefix (eventLog s) (eventLog (snd (transact e c s)))"
  by (cases c) (auto simp: call_defs)

text \<open>
  On an empty contract, \<^verbatim>\<open>logSend(bob, "cid1")\<close> from alice returns id 1; then the total
  is 1, bob's received list and alice's sent list are \<open>[1]\<close>, and \<^verbatim>\<open>getEmail(2)\<close>
  rejects.
\<close>

lemma first_submission:
  "transact env_alice (LogSend bob ''cid1'') s0 =
     (Inr (RetId 1), run [(env_alice, LogSend bob ''cid1'')] s0)"
  "getTotalEmails (run [(env_alice, LogSend bob ''cid1'')] s0) = 1"
  "getRecipientEmails (run [(env_alice, LogSend bob ''cid1'')] s0) bob = [1]"
  "getSenderEmails (run [(env_alice, LogSend bob ''cid1'')] s0) alice = [1]"
  "getEmail (run [(env_alice, LogSend bob ''cid1'')] s0) 2 = Inl (Error ''Invalid email ID'')"
  by (simp_all add: call_defs s0_def constructor_def fixture_facts MAX_UINT256_def
        getTotalEmails_def getRecipientEmails_def getSenderEmails_def getEmail_def)

section \<open>Properties of the relay endpoint\<close>

lemmas POST_defs = POST_def try_block_def catch_block_def submitted_def configuration_absent_def
  env_truthy_def

lemma config_absent_rejects:
  "configuration_absent w \<Longrightarrow> is_error (fst (POST w)) \<and> \<not> submitted (snd (POST w))"
  by (auto simp: POST_defs split: sum.splits prod.splits option.splits)

lemma low_balance_rejects:
  "getBalance w = Inr b \<Longrightarrow> parseFloat_formatEther w b < min_balance \<Longrightarrow>
     is_error (fst (POST w)) \<and> \<not> submitted (snd (POST w))"
  by (auto simp: POST_defs split: sum.splits prod.splits option.splits)

lemma catch_block_POST:
  "fst (try_block w) = Inl t \<Longrightarrow> fst (POST w) = catch_block t"
  by (auto simp: POST_def split: sum.splits prod.splits)

lemma ledger_rejection_propagates:
  assumes "request_json w = Inr (r, h, u)" "truthy r" "truthy h" "truthy u"
    "env_truthy (RELAY_WALLET_PRIVATE_KEY w)"
    "RELAY_WALLET_PRIVATE_KEY w \<noteq> Some ''your_relay_wallet_private_key_here''"
    "env_truthy (NEXT_PUBLIC_BLOCKDAG_RPC_URL w)"
    "env_truthy (NEXT_PUBLIC_CHAINMAIL_CONTRACT_ADDRESS w)"
    "new_Wallet w = None" "getBalance w = Inr b" "\<not> parseFloat_formatEther w b < min_balance"
    "new_Contract w = None" "contract_logSendFor w = Some t"
  shows "try_block w = (Inl t, [Call_getBalance, Call_logSendFor u r h])"
  using assms by (simp add: try_block_def)

text \<open>
  Claim C9, as amended. The endpoint answers with an error, and makes no
  \<^verbatim>\<open>logSendFor\<close> call, whenever the RPC endpoint, the contract address or the relay key is
  not configured, and whenever the relay balance it reads is below the minimum. When a
  step of the handler throws an \<^verbatim>\<open>Error\<close>, the response is status 500 with exactly that
  error's message; in particular the message of a rejected \<^verbatim>\<open>logSendFor\<close> reaches the
  response body unchanged. When a step throws a value that is not an \<^verbatim>\<open>Error\<close>, the
  response is status 500 with "Unknown error".
\<close>

theorem relay_send_email_guards:
  "(configuration_absent w \<longrightarrow> is_error (fst (POST w)) \<and> \<not> submitted (snd (POST w))) \<and>
   (getBalance w = Inr b \<and> parseFloat_formatEther w b < min_balance \<longrightarrow>
      is_error (fst (POST w)) \<and> \<not> submitted (snd (POST w))) \<and>
   (fst (try_block w) = Inl (ErrorInstance m) \<longrightarrow> fst (POST w) = Json_error 500 m) \<and>
   (fst (try_block w) = Inl (OtherValue v) \<longrightarrow> fst (POST w) = Json_error 500 ''Unknown error'') \<and>
   (request_json w = Inr (r, h, u) \<and> truthy r \<and> truthy h \<and> truthy u \<and>
    env_truthy (RELAY_WALLET_PRIVATE_KEY w) \<and>
    RELAY_WALLET_PRIVATE_KEY w \<noteq> Some ''your_relay_wallet_private_key_here'' \<and>
    env_truthy (NEXT_PUBLIC_BLOCKDAG_RPC_URL w) \<and>
    env_truthy (NEXT_PUBLIC_CHAINMAIL_CONTRACT_ADDRESS w) \<and>
    new_Wallet w = None \<and> getBalance w = Inr b' \<and>
    \<not> parseFloat_formatEther w b' < min_balance \<and>
    new_Contract w = None \<and> contract_logSendFor w = Some (ErrorInstance m') \<longrightarrow>
      POST w = (Json_error 500 m', [Call_getBalance, Call_logSendFor u r h]))"
proof -
  have "POST w = (Json_error 500 m', [Call_getBalance, Call_logSendFor u r h])"
    if "request_json w = Inr (r, h, u)" "truthy r" "truthy h" "truthy u"
    "env_truthy (RELAY_WALLET_PRIVATE_KEY w)"
    "RELAY_WALLET_PRIVATE_KEY w \<noteq> Some ''your_relay_wallet_private_key_here''"
    "env_truthy (NEXT_PUBLIC_BLOCKDAG_RPC_URL w)"
    "env_truthy (NEXT_PUBLIC_CHAINMAIL_CONTRACT_ADDRESS w)"
    "new_Wallet w = None" "getBalance w = Inr b'" "\<not> parseFloat_formatEther w b' < min_balance"
    "new_Contract w = None" "contract_logSendFor w = Some (ErrorInstance m')"
    using ledger_rejection_propagates [OF that] by (simp add: POST_def catch_block_def)
  moreover have "fst (try_block w) = Inl (ErrorInstance m) \<longrightarrow> fst (POST w) = Json_error 500 m"
    by (auto simp: catch_block_POST catch_block_def)
  moreover have "fst (try_block w) = Inl (OtherValue v) \<longrightarrow>
      fst (POST w) = Json_error 500 ''Unknown error''"
    by (auto simp: catch_block_POST catch_block_def)
  ultimately show ?thesis
    using config_absent_rejects [of w] low_balance_rejects [of w b] by blast
qed

lemma w_fine_fields:
  "request_json w_fine = Inr (JString ''0xB0b'', JString ''cid1'', JString ''0xA11ce'')"
  "RELAY_WALLET_PRIVATE_KEY w_fine = Some ''0x01''"
  "NEXT_PUBLIC_BLOCKDAG_RPC_URL w_fine = Some ''https://rpc.example''"
  "NEXT_PUBLIC_CHAINMAIL_CONTRACT_ADDRESS w_fine = Some ''0xC0de''"
  "new_Wallet w_fine = None" "getBalance w_fine = Inr (5 * 10 ^ 18)"
  "parseFloat_formatEther w_fine = (\<lambda>b. real b / 10 ^ 18)"
  "new_Contract w_fine = None" "contract_logSendFor w_fine = None"
  by (simp_all add: w_fine_def)

lemma balance_checks:
  "\<not> real (5 * 10 ^ 18) / 10 ^ 18 < min_balance" "real (10 ^ 14) / 10 ^ 18 < min_balance"
  by (simp_all add: min_balance_def)

theorem relay_send_email_guards_witness:
  "configuration_absent w_unconfigured \<and>
   POST w_unconfigured = (Json_error 500 ''Blockchain configuration missing'', []) \<and>
   getBalance w_poor = Inr (10 ^ 14) \<and> parseFloat_formatEther w_poor (10 ^ 14) < min_balance \<and>
   is_error (fst (POST w_poor)) \<and> \<not> submitted (snd (POST w_poor)) \<and>
   contract_logSendFor w_rejected = Some (ErrorInstance ''execution reverted: Not authorized relay'') \<and>
   POST w_rejected = (Json_error 500 ''execution reverted: Not authorized relay'',
     [Call_getBalance, Call_logSendFor (JString ''0xA11ce'') (JString ''0xB0b'') (JString ''cid1'')])"
proof -
  have c: "configuration_absent w_unconfigured"
    by (simp add: configuration_absent_def w_unconfigured_def env_truthy_def)
  have cp: "POST w_unconfigured = (Json_error 500 ''Blockchain configuration missing'', [])"
    by (simp add: POST_def try_block_def w_unconfigured_def w_fine_fields env_truthy_def)
  have p: "getBalance w_poor = Inr (10 ^ 14)" "parseFloat_formatEther w_poor (10 ^ 14) < min_balance"
    using balance_checks(2) by (simp_all add: w_poor_def w_fine_fields)
  from relay_send_email_guards [where w = w_poor and b = "10 ^ 14"] p
  have pr: "is_error (fst (POST w_poor)) \<and> \<not> submitted (snd (POST w_poor))" by blast
  have r: "request_json w_rejected =
        Inr (JString ''0xB0b'', JString ''cid1'', JString ''0xA11ce'')"
    "truthy (JString ''0xB0b'')" "truthy (JString ''cid1'')" "truthy (JString ''0xA11ce'')"
    "env_truthy (RELAY_WALLET_PRIVATE_KEY w_rejected)"
    "RELAY_WALLET_PRIVATE_KEY w_rejected \<noteq> Some ''your_relay_wallet_private_key_here''"
    "env_truthy (NEXT_PUBLIC_BLOCKDAG_RPC_URL w_rejected)"
    "env_truthy (NEXT_PUBLIC_CHAINMAIL_CONTRACT_ADDRESS w_rejected)"
    "new_Wallet w_rejected = None" "getBalance w_rejected = Inr (5 * 10 ^ 18)"
    "\<not> parseFloat_formatEther w_rejected (5 * 10 ^ 18) < min_balance"
    "new_Contract w_rejected = None"
    "contract_logSendFor w_rejected =
       Some (ErrorInstance ''execution reverted: Not authorized relay'')"
    using balance_checks(1) by (simp_all add: w_rejected_def w_fine_fields env_truthy_def)
  from relay_send_email_guards [where w = w_rejected and b' = "5 * 10 ^ 18"
      and r = "JString ''0xB0b''" and h = "JString ''cid1''" and u = "JString ''0xA11ce''"
      and m' = "''execution reverted: Not authorized relay''"] r
  have rr: "POST w_rejected = (Json_error 500 ''execution reverted: Not authorized relay'',
     [Call_getBalance, Call_logSendFor (JString ''0xA11ce'') (JString ''0xB0b'') (JString ''cid1'')])"
    by blast
  from relay_send_email_guards [where w = w_unconfigured] c
  have "is_error (fst (POST w_unconfigured))" by blast
  with c cp p pr r(13) rr show ?thesis by blast
qed

text \<open>
  Claim C9 as stated surfaces the underlying reason on any failure. A submission that
  throws the string "nonce too low" is answered with "Unknown error".
\<close>

theorem relay_send_email_non_error_counterexample:
  "contract_logSendFor w_thrown_string = Some (OtherValue (JString ''nonce too low'')) \<and>
   POST w_thrown_string = (Json_error 500 ''Unknown error'',
     [Call_getBalance, Call_logSendFor (JString ''0xA11ce'') (JString ''0xB0b'') (JString ''cid1'')])"
  using balance_checks(1)
  by (simp add: POST_def try_block_def catch_block_def w_thrown_string_def w_fine_fields
        env_truthy_def)

end
